theory Spec2Isabelle
  imports Main
begin

section \<open>JavaScript values used by the components\<close>

text \<open>
  A JavaScript number that is used as an array index or passed to \<open>onSelectPose\<close>.
  The handlers only add, subtract and take remainders of integers, so a number is an
  integer or \<open>NaN\<close> (the remainder by zero). Signed zero is identified with zero.
\<close>

datatype jsnum = Num int | NaN

text \<open>
  The operator \<open>%\<close> on integers: the result has the sign of the dividend, and the
  remainder by zero is \<open>NaN\<close>.
\<close>

definition js_rem :: "int \<Rightarrow> int \<Rightarrow> jsnum" where
  "js_rem a b = (if b = 0 then NaN else Num (sgn a * (\<bar>a\<bar> mod \<bar>b\<bar>)))"

text \<open>
  Reading \<open>arr[i]\<close>: \<open>None\<close> stands for \<open>undefined\<close>, which is what an index
  outside the array (or \<open>NaN\<close>) yields.
\<close>

fun js_get :: "'a list \<Rightarrow> jsnum \<Rightarrow> 'a option" where
  "js_get xs NaN = None"
| "js_get xs (Num i) = (if 0 \<le> i \<and> i < int (length xs) then Some (xs ! nat i) else None)"

text \<open>
  \<open>Array.prototype.indexOf\<close>: the first position holding the value, or \<open>-1\<close>.
  An array of strings is searched for a value that may be \<open>undefined\<close>, so the callers
  pass the array as \<open>map Some arr\<close> and the value as an option.
\<close>

fun indexOf :: "'a list \<Rightarrow> 'a \<Rightarrow> int" where
  "indexOf [] v = - 1"
| "indexOf (x # xs) v =
     (if x = v then 0
      else (let r = indexOf xs v in if r = - 1 then - 1 else r + 1))"

section \<open>Canvas: pose navigation\<close>

text \<open>
  \<open>handlePreviousPose\<close> and \<open>handleNextPose\<close> are closures over the props
  \<open>isLoading\<close>, \<open>poseInstructions\<close>, \<open>currentPoseIndex\<close> and
  \<open>availablePoseKeys\<close>. Their only effect is to call \<open>onSelectPose\<close>; the model
  returns the arguments of these calls, in order.
\<close>

definition handlePreviousPose ::
  "bool \<Rightarrow> string list \<Rightarrow> int \<Rightarrow> string list \<Rightarrow> jsnum list" where
  "handlePreviousPose isLoading poseInstructions currentPoseIndex availablePoseKeys =
     (if isLoading \<or> length availablePoseKeys \<le> 1 then []
      else
        (let currentPoseInstruction = js_get poseInstructions (Num currentPoseIndex);
             currentIndexInAvailable = indexOf (map Some availablePoseKeys) currentPoseInstruction
         in if currentIndexInAvailable = - 1
            then [js_rem (currentPoseIndex - 1 + int (length poseInstructions))
                         (int (length poseInstructions))]
            else
              (let prevIndexInAvailable =
                     js_rem (currentIndexInAvailable - 1 + int (length availablePoseKeys))
                            (int (length availablePoseKeys));
                   prevPoseInstruction = js_get availablePoseKeys prevIndexInAvailable;
                   newGlobalPoseIndex = indexOf (map Some poseInstructions) prevPoseInstruction
               in if newGlobalPoseIndex \<noteq> - 1 then [Num newGlobalPoseIndex] else [])))"

definition handleNextPose ::
  "bool \<Rightarrow> string list \<Rightarrow> int \<Rightarrow> string list \<Rightarrow> jsnum list" where
  "handleNextPose isLoading poseInstructions currentPoseIndex availablePoseKeys =
     (if isLoading then []
      else
        (let currentPoseInstruction = js_get poseInstructions (Num currentPoseIndex);
             currentIndexInAvailable = indexOf (map Some availablePoseKeys) currentPoseInstruction
         in if currentIndexInAvailable = - 1 \<or> length availablePoseKeys = 0
            then [js_rem (currentPoseIndex + 1) (int (length poseInstructions))]
            else
              (let nextIndexInAvailable = currentIndexInAvailable + 1
               in if nextIndexInAvailable < int (length availablePoseKeys)
                  then
                    (let nextPoseInstruction = js_get availablePoseKeys (Num nextIndexInAvailable);
                         newGlobalPoseIndex = indexOf (map Some poseInstructions) nextPoseInstruction
                     in if newGlobalPoseIndex \<noteq> - 1 then [Num newGlobalPoseIndex] else [])
                  else
                    (let newGlobalPoseIndex =
                           js_rem (currentPoseIndex + 1) (int (length poseInstructions))
                     in [newGlobalPoseIndex]))))"

section \<open>Strings\<close>

text \<open>
  A JavaScript string is modelled as a \<open>string\<close>, one \<open>char\<close> for each code unit;
  code units above \<open>0xFF\<close> are outside the model. \<open>startsWith\<close>,
  \<open>split\<close> and \<open>trim\<close> are the methods of \<open>String.prototype\<close>, with the
  receiver as first argument.
\<close>

definition startsWith :: "string \<Rightarrow> string \<Rightarrow> bool" where
  "startsWith s p = (take (length p) s = p)"

fun split :: "string \<Rightarrow> char \<Rightarrow> string list" where
  "split [] sep = [[]]"
| "split (c # cs) sep =
     (if c = sep then [] # split cs sep
      else (case split cs sep of [] \<Rightarrow> [[c]] | w # ws \<Rightarrow> (c # w) # ws))"

text \<open>White space and line terminators, the code units that \<open>trim\<close> removes.\<close>

definition isWhiteSpace :: "char \<Rightarrow> bool" where
  "isWhiteSpace c = (c \<in> set [CHR 0x09, CHR 0x0A, CHR 0x0B, CHR 0x0C, CHR 0x0D, CHR 0x20, CHR 0xA0])"

definition trim :: "string \<Rightarrow> string" where
  "trim s = rev (dropWhile isWhiteSpace (rev (dropWhile isWhiteSpace s)))"

text \<open>The line terminators, which \<open>.\<close> of a regular expression does not match.\<close>

definition isLineTerminator :: "char \<Rightarrow> bool" where
  "isLineTerminator c = (c = CHR 0x0A \<or> c = CHR 0x0D)"

text \<open>
  A value interpolated in a template literal or tested in a condition: a string, or
  \<open>undefined\<close> (\<open>None\<close>).
\<close>

definition template :: "string option \<Rightarrow> string" where
  "template v = (case v of None \<Rightarrow> ''undefined'' | Some s \<Rightarrow> s)"

definition truthy :: "string option \<Rightarrow> bool" where
  "truthy v = (case v of None \<Rightarrow> False | Some s \<Rightarrow> s \<noteq> [])"

text \<open>The decimal digits of a number, as a template literal prints it.\<close>

fun decimal :: "nat \<Rightarrow> string" where
  "decimal n =
     (if n < 10 then [''0123456789'' ! n]
      else decimal (n div 10) @ [''0123456789'' ! (n mod 10)])"

declare decimal.simps [simp del]

section \<open>The generation service\<close>

text \<open>
  An exception: an \<open>Error\<close> with its message, or whatever an external collaborator
  (the file reader, the image loader, the generation API) rejects with.
\<close>

datatype error = Error string | Rejection string

text \<open>
  The objects exchanged with the generation API. Every field is optional in the API's
  types. \<open>partText\<close> is the field \<open>text\<close> of a part, and \<open>responseText\<close>
  is the accessor \<open>response.text\<close>, which the API's library computes.
\<close>

record blob =
  mimeType :: "string option"
  data :: "string option"

record part =
  inlineData :: "blob option"
  partText :: "string option"

record content =
  parts :: "part list option"

record candidate =
  content :: "content option"
  finishReason :: "string option"

record response =
  candidates :: "candidate list option"
  responseText :: "string option"

record request =
  model :: string
  contents :: content

text \<open>A \<open>File\<close>: its name, its MIME type and its bytes.\<close>

record js_file =
  file_name :: string
  file_type :: string
  file_bytes :: string

text \<open>
  The match of \<open>/:(.*?);/\<close>: from the leftmost colon that is followed by a semicolon
  with no line terminator in between, the group is the text up to the first such
  semicolon. \<open>lazyGroup\<close> reads the group after a colon.
\<close>

fun lazyGroup :: "string \<Rightarrow> string option" where
  "lazyGroup [] = None"
| "lazyGroup (c # cs) =
     (if c = CHR 0x3B then Some []
      else if isLineTerminator c then None
      else (case lazyGroup cs of None \<Rightarrow> None | Some g \<Rightarrow> Some (c # g)))"

fun mimeMatch :: "string \<Rightarrow> string option" where
  "mimeMatch [] = None"
| "mimeMatch (c # cs) =
     (if c = CHR 0x3A
      then (case lazyGroup cs of Some g \<Rightarrow> Some g | None \<Rightarrow> mimeMatch cs)
      else mimeMatch cs)"

definition dataUrlToParts :: "string \<Rightarrow> error + (string \<times> string)" where
  "dataUrlToParts dataUrl =
     (let arr = split dataUrl CHR 0x2C
      in if length arr < 2 then Inl (Error ''Invalid data URL'')
         else (case mimeMatch (arr ! 0) of
                 None \<Rightarrow> Inl (Error ''Could not parse MIME type from data URL'')
               | Some m \<Rightarrow>
                   if m = [] then Inl (Error ''Could not parse MIME type from data URL'')
                   else Inr (m, arr ! 1)))"

definition dataUrlToPart :: "string \<Rightarrow> error + part" where
  "dataUrlToPart dataUrl =
     (case dataUrlToParts dataUrl of
        Inl e \<Rightarrow> Inl e
      | Inr (m, d) \<Rightarrow>
          Inr \<lparr>inlineData = Some \<lparr>mimeType = Some m, data = Some d\<rparr>, partText = None\<rparr>)"

text \<open>
  \<open>fileToPart\<close> reads the file with a \<open>FileReader\<close>; \<open>readAsDataURL\<close> is that
  collaborator, giving the data URL of the file or rejecting.
\<close>

definition fileToPart :: "(js_file \<Rightarrow> error + string) \<Rightarrow> js_file \<Rightarrow> error + part" where
  "fileToPart readAsDataURL file =
     (case readAsDataURL file of
        Inl e \<Rightarrow> Inl e
      | Inr dataUrl \<Rightarrow>
          (case dataUrlToParts dataUrl of
             Inl e \<Rightarrow> Inl e
           | Inr (m, d) \<Rightarrow>
               Inr \<lparr>inlineData = Some \<lparr>mimeType = Some m, data = Some d\<rparr>, partText = None\<rparr>))"

text \<open>
  \<open>handleApiResponse\<close>: the two nested loops return at the first part that has
  \<open>inlineData\<close>; \<open>scanParts\<close> is the inner loop and \<open>scanCandidates\<close> the outer
  one, \<open>Some\<close> being the returned data URL.
\<close>

fun scanParts :: "part list \<Rightarrow> string option" where
  "scanParts [] = None"
| "scanParts (p # ps) =
     (case inlineData p of
        Some b \<Rightarrow> Some (''data:'' @ template (mimeType b) @ '';base64,'' @ template (data b))
      | None \<Rightarrow> scanParts ps)"

fun scanCandidates :: "candidate list \<Rightarrow> string option" where
  "scanCandidates [] = None"
| "scanCandidates (c # cs) =
     (case (case content c of
              None \<Rightarrow> None
            | Some ct \<Rightarrow> (case parts ct of None \<Rightarrow> None | Some ps \<Rightarrow> scanParts ps)) of
        Some url \<Rightarrow> Some url
      | None \<Rightarrow> scanCandidates cs)"

definition handleApiResponse :: "response \<Rightarrow> error + string" where
  "handleApiResponse response =
     (case candidates response of
        None \<Rightarrow>
          Inl (Error ''No candidates returned from the model. This may be due to safety filters.'')
      | Some cs \<Rightarrow>
          if length cs = 0
          then Inl (Error ''No candidates returned from the model. This may be due to safety filters.'')
          else
            (case scanCandidates cs of
               Some url \<Rightarrow> Inr url
             | None \<Rightarrow>
                 (let finishReason =
                        (case js_get cs (Num 0) of None \<Rightarrow> None | Some c \<Rightarrow> finishReason c)
                  in if truthy finishReason \<and> finishReason \<noteq> Some ''STOP''
                     then Inl (Error (''Generation stopped unexpectedly. Reason: ''
                                        @ template finishReason @ ''.''))
                     else
                       (let textFeedback = map_option trim (responseText response);
                            errorMessage =
                              (if truthy textFeedback
                               then ''The model responded with text instead of an image: ''
                                      @ [CHR 0x22] @ template textFeedback @ [CHR 0x22]
                               else ''No image was returned. Please try a different prompt or image.'')
                        in Inl (Error errorMessage)))))"

text \<open>The constant \<open>model\<close> of the service.\<close>

definition model_name :: string where
  "model_name = ''gemini-2.5-flash-image''"

text \<open>The instruction text of \<open>generateVirtualTryOnImage\<close>.\<close>

definition tryOnPrompt :: string where
  "tryOnPrompt =
     ''### MISSION: 100% PRECISION VIRTUAL TRY-ON\<newline>'' @
     ''You are an advanced cloth-to-person transfer system. Your objective is absolute structural and color fidelity to the 'garment image' and the 'model image'.\<newline>'' @
     ''\<newline>'' @
     ''### STEP 1: GARMENT SEGMENTATION & SELECTIVE TARGETING\<newline>'' @
     ''- Identify the garment(s) in the 'garment image'. \<newline>'' @
     ''- **STRICT SELECTIVITY:** Only replace the pixels of the corresponding category on the model.\<newline>'' @
     ''- **ISOLATION RULE:** If you are adding a JACKET/TOP, you MUST NOT change the model's pants, shoes, or accessories (hat/sunglasses). If the model is wearing olive joggers, they MUST remain olive joggers in the final image.\<newline>'' @
     ''- **ISOLATION RULE:** If you are adding PANTS, you MUST NOT change the model's shirt, shoes, or accessories.\<newline>'' @
     ''\<newline>'' @
     ''### STEP 2: STRUCTURAL FIDELITY (REPLACE, DO NOT RE-COLOR)\<newline>'' @
     ''- **DISREGARD ORIGINAL CUT:** Completely ignore the cut of the person's original clothes. If the model is wearing joggers with elastic cuffs, but the 'garment image' is a straight-leg slack, the final output MUST be a straight-leg slack.\<newline>'' @
     ''- **NO HALLUCINATIONS:** Strictly prohibited from adding elastic cuffs, drawstrings, or extra pockets that are not in the product photo. The leg opening and hem must match the 'garment image' 100%.\<newline>'' @
     ''\<newline>'' @
     ''### STEP 3: COLOR & TEXTURE CALIBRATION\<newline>'' @
     ''- **COLOR PRECISION:** Sample the exact HEX color from the 'garment image'. The output garment must match this specific hue perfectly.\<newline>'' @
     ''- **LIGHTING NEUTRALITY:** Do not allow the environment lighting in the 'model image' to shift the color. The fabric must look true-to-life as seen in a professional product shot.\<newline>'' @
     ''- **FABRIC FIDELITY:** Replicate the texture (twill, stretch, knit) exactly as seen in the garment image.\<newline>'' @
     ''\<newline>'' @
     ''### STEP 4: IDENTITY & SCENE PRESERVATION\<newline>'' @
     ''- The person's face, hair, skin, sunglasses, hat, and background MUST remain a pixel-perfect match to the 'model image'.\<newline>'' @
     ''\<newline>'' @
     ''Return ONLY the high-resolution generated image. NO TEXT.''"

text \<open>
  \<open>generateVirtualTryOnImage\<close>. \<open>generateContent\<close> is the generation API, the
  external collaborator; the model returns the requests sent to it, in order, with the
  resolved value or the rejection of the promise.
\<close>

definition generateVirtualTryOnImage ::
  "(js_file \<Rightarrow> error + string) \<Rightarrow> (request \<Rightarrow> error + response) \<Rightarrow> string \<Rightarrow> js_file
     \<Rightarrow> request list \<times> (error + string)" where
  "generateVirtualTryOnImage readAsDataURL generateContent modelImageUrl garmentImage =
     (case dataUrlToPart modelImageUrl of
        Inl e \<Rightarrow> ([], Inl e)
      | Inr modelImagePart \<Rightarrow>
          (case fileToPart readAsDataURL garmentImage of
             Inl e \<Rightarrow> ([], Inl e)
           | Inr garmentImagePart \<Rightarrow>
               (let req = \<lparr>model = model_name,
                           contents = \<lparr>parts = Some [modelImagePart, garmentImagePart,
                             \<lparr>inlineData = None, partText = Some tryOnPrompt\<rparr>]\<rparr>\<rparr>
                in (case generateContent req of
                      Inl e \<Rightarrow> ([req], Inl e)
                    | Inr response \<Rightarrow> ([req], handleApiResponse response)))))"

text \<open>
  The inline-data parts of a response in reading order: the candidates in order, the
  parts of each candidate in order. This follows the description of the result, not the
  loops of \<open>handleApiResponse\<close>.
\<close>

definition candidateInlineParts :: "candidate \<Rightarrow> blob list" where
  "candidateInlineParts c =
     (case content c of
        None \<Rightarrow> []
      | Some ct \<Rightarrow> (case parts ct of None \<Rightarrow> [] | Some ps \<Rightarrow> List.map_filter inlineData ps))"

definition inlineParts :: "response \<Rightarrow> blob list" where
  "inlineParts response =
     (case candidates response of None \<Rightarrow> [] | Some cs \<Rightarrow> concat (map candidateInlineParts cs))"

section \<open>The wardrobe panel\<close>

record wardrobeItem =
  item_id :: string
  item_name :: string
  item_url :: string

text \<open>
  What a handler of the panel leaves behind: the \<open>error\<close> state of the component, the
  calls of \<open>onGarmentSelect\<close> in order, and the exception that escapes the handler,
  if any.
\<close>

record outcome =
  error :: "string option"
  selected :: "(js_file \<times> wardrobeItem) list"
  thrown :: "error option"

text \<open>
  \<open>handleGarmentClick\<close>. \<open>urlToFile\<close> loads the image of the item and may reject;
  \<open>onGarmentSelect\<close> is the callback, \<open>Some e\<close> when it throws \<open>e\<close>. The
  handler closes over \<open>isLoading\<close> and \<open>activeGarmentIds\<close>; \<open>error\<close> is the state
  before the click.
\<close>

definition handleGarmentClick ::
  "(string \<Rightarrow> string \<Rightarrow> error + js_file) \<Rightarrow> (js_file \<Rightarrow> wardrobeItem \<Rightarrow> error option)
     \<Rightarrow> bool \<Rightarrow> string list \<Rightarrow> string option \<Rightarrow> wardrobeItem \<Rightarrow> outcome" where
  "handleGarmentClick urlToFile onGarmentSelect isLoading activeGarmentIds err item =
     (if isLoading \<or> item_id item \<in> set activeGarmentIds
      then \<lparr>error = err, selected = [], thrown = None\<rparr>
      else
        (case urlToFile (item_url item) (item_name item) of
           Inl e \<Rightarrow>
             \<lparr>error = Some ''Failed to load item. This might be a CORS issue.'',
              selected = [], thrown = None\<rparr>
         | Inr file \<Rightarrow>
             (case onGarmentSelect file item of
                None \<Rightarrow> \<lparr>error = None, selected = [(file, item)], thrown = None\<rparr>
              | Some e \<Rightarrow>
                  \<lparr>error = Some ''Failed to load item. This might be a CORS issue.'',
                   selected = [(file, item)], thrown = None\<rparr>)))"

text \<open>
  \<open>handleFileChange\<close>. \<open>files\<close> is \<open>e.target.files\<close> (\<open>None\<close> for
  \<open>null\<close>), \<open>now\<close> is what \<open>Date.now()\<close> returns and \<open>createObjectURL\<close> is
  \<open>URL.createObjectURL\<close>.
\<close>

definition handleFileChange ::
  "(js_file \<Rightarrow> wardrobeItem \<Rightarrow> error option) \<Rightarrow> nat \<Rightarrow> (js_file \<Rightarrow> string)
     \<Rightarrow> string option \<Rightarrow> js_file list option \<Rightarrow> outcome" where
  "handleFileChange onGarmentSelect now createObjectURL err files =
     (case files of
        None \<Rightarrow> \<lparr>error = err, selected = [], thrown = None\<rparr>
      | Some fs \<Rightarrow>
          (case js_get fs (Num 0) of
             None \<Rightarrow> \<lparr>error = err, selected = [], thrown = None\<rparr>
           | Some file \<Rightarrow>
               if \<not> startsWith (file_type file) ''image/''
               then \<lparr>error = Some ''Please select an image file.'', selected = [], thrown = None\<rparr>
               else
                 (let customGarmentInfo =
                        \<lparr>item_id = ''custom-'' @ decimal now,
                         item_name = file_name file,
                         item_url = createObjectURL file\<rparr>
                  in \<lparr>error = err, selected = [(file, customGarmentInfo)],
                      thrown = onGarmentSelect file customGarmentInfo\<rparr>)))"

section \<open>Facts about the array helpers\<close>

lemma indexOf_ge: "- 1 \<le> indexOf xs v"
  by (induction xs) (auto simp: Let_def)

lemma indexOf_lt: "indexOf xs v < int (length xs)"
  by (induction xs) (auto simp: Let_def)

lemma indexOf_absent: "indexOf xs v = - 1 \<longleftrightarrow> v \<notin> set xs"
proof (induction xs)
  case Nil
  show ?case by simp
next
  case (Cons x xs)
  have "- 1 \<le> indexOf xs v" by (rule indexOf_ge)
  with Cons show ?case by (auto simp: Let_def)
qed

lemma indexOf_nth: "v \<in> set xs \<Longrightarrow> xs ! nat (indexOf xs v) = v"
proof (induction xs)
  case Nil
  then show ?case by simp
next
  case (Cons x xs)
  show ?case
  proof (cases "x = v")
    case True
    then show ?thesis by simp
  next
    case False
    with Cons.prems have mem: "v \<in> set xs" by simp
    then have "indexOf xs v \<noteq> - 1" by (simp add: indexOf_absent)
    moreover have "- 1 \<le> indexOf xs v" by (rule indexOf_ge)
    ultimately have nn: "0 \<le> indexOf xs v" by linarith
    then have "nat (indexOf xs v + 1) = Suc (nat (indexOf xs v))" by linarith
    with False mem Cons.IH \<open>indexOf xs v \<noteq> - 1\<close> show ?thesis by (simp add: Let_def)
  qed
qed

lemma js_get_Some_range: "js_get xs (Num i) = Some v \<Longrightarrow> 0 \<le> i \<and> i < int (length xs)"
  by (simp split: if_splits)

lemma js_rem_nonneg: "0 \<le> a \<Longrightarrow> 0 < b \<Longrightarrow> js_rem a b = Num (a mod b)"
  by (cases "a = 0") (simp_all add: js_rem_def)

lemma indexOf_map_inj: "inj f \<Longrightarrow> indexOf (map f xs) (f v) = indexOf xs v"
  by (induction xs) (auto simp: Let_def dest: injD)

lemma indexOf_map_Some: "indexOf (map Some xs) (Some v) = indexOf xs v"
  by (rule indexOf_map_inj) simp

lemma indexOf_map_Some_None: "indexOf (map Some xs) None = - 1"
  by (induction xs) (auto simp: Let_def)

section \<open>Properties of pose navigation\<close>

text \<open>
  C8. While \<open>isLoading\<close> is true, or when at most one pose is available,
  \<open>handlePreviousPose\<close> returns without calling \<open>onSelectPose\<close>: the list of calls
  is empty, whatever the catalog and the current index are (so the full-catalog wrap
  for an unavailable current pose does not happen either).
\<close>

theorem handlePreviousPose_noop_at_boundary:
  assumes "isLoading \<or> length availablePoseKeys \<le> 1"
  shows "handlePreviousPose isLoading poseInstructions currentPoseIndex availablePoseKeys = []"
  using assms by (auto simp: handlePreviousPose_def)

theorem handlePreviousPose_noop_at_boundary_witness:
  "(False \<or> length [''B''] \<le> 1) \<and>
   handlePreviousPose False [''A'', ''B'', ''C'', ''D''] 0 [''B''] = [] \<and>
   handlePreviousPose True [''A'', ''B'', ''C'', ''D''] 2 [''A'', ''C''] = []"
  using handlePreviousPose_noop_at_boundary [of False "[''B'']" "[''A'', ''B'', ''C'', ''D'']" 0]
    handlePreviousPose_noop_at_boundary [of True "[''A'', ''C'']" "[''A'', ''B'', ''C'', ''D'']" 2]
  by simp


text \<open>
  C1. Next-pose navigation does not wrap inside the available list. While the canvas is
  not loading (the guard of the handler; the button is disabled otherwise), if the
  current pose is found in the available list at its last position, \<open>handleNextPose\<close>
  calls \<open>onSelectPose\<close> exactly once, with the full-catalog index
  \<open>(i + 1) mod |catalog|\<close>, for every catalog, available list and current index
  \<open>i\<close>. With catalog [A, B, C, D], available [A, C] and current pose C the call is
  \<open>onSelectPose(3)\<close>, the pose D.
\<close>

theorem handleNextPose_no_wrap_in_available:
  assumes "\<not> isLoading"
    and "availablePoseKeys \<noteq> []"
    and "indexOf (map Some availablePoseKeys) (js_get poseInstructions (Num currentPoseIndex))
           = int (length availablePoseKeys) - 1"
  shows "handleNextPose isLoading poseInstructions currentPoseIndex availablePoseKeys
           = [Num ((currentPoseIndex + 1) mod int (length poseInstructions))]"
proof -
  let ?cur = "js_get poseInstructions (Num currentPoseIndex)"
  let ?ci = "indexOf (map Some availablePoseKeys) ?cur"
  from assms(2) have len: "0 < length availablePoseKeys" by simp
  with assms(3) have found: "?ci \<noteq> - 1" by simp
  then obtain c where c: "?cur = Some c"
    by (cases ?cur) (simp_all add: indexOf_map_Some_None)
  then have range: "0 \<le> currentPoseIndex \<and> currentPoseIndex < int (length poseInstructions)"
    by (rule js_get_Some_range)
  then have "js_rem (currentPoseIndex + 1) (int (length poseInstructions))
      = Num ((currentPoseIndex + 1) mod int (length poseInstructions))"
    by (intro js_rem_nonneg) linarith+
  with assms found len show ?thesis
    by (simp add: handleNextPose_def Let_def)
qed

theorem handleNextPose_no_wrap_in_available_witness:
  "\<not> False \<and> [''A'', ''C''] \<noteq> [] \<and>
   indexOf (map Some [''A'', ''C'']) (js_get [''A'', ''B'', ''C'', ''D''] (Num 2))
     = int (length [''A'', ''C'']) - 1 \<and>
   handleNextPose False [''A'', ''B'', ''C'', ''D''] 2 [''A'', ''C''] = [Num 3] \<and>
   js_get [''A'', ''B'', ''C'', ''D''] (Num 3) = Some ''D''"
  using handleNextPose_no_wrap_in_available [of False "[''A'', ''C'']" "[''A'', ''B'', ''C'', ''D'']" 2]
  by simp

text \<open>
  C2, as the code has it. \<open>handlePreviousPose\<close> first returns when the canvas is
  loading or when at most one pose is available. Past that guard, for a current index
  inside the catalog and an available list drawn from the catalog: if the current pose is
  not in the available list, the handler selects \<open>(i - 1 + |catalog|) mod |catalog|\<close>
  whatever is available; if it is found at position \<open>p\<close>, the handler selects the
  catalog index of \<open>available[(p - 1) mod |available|]\<close>.
\<close>

theorem handlePreviousPose_algorithm:
  assumes "\<not> isLoading"
    and "1 < length availablePoseKeys"
    and "0 \<le> currentPoseIndex"
    and "currentPoseIndex < int (length poseInstructions)"
    and "set availablePoseKeys \<subseteq> set poseInstructions"
  shows "(poseInstructions ! nat currentPoseIndex \<notin> set availablePoseKeys \<longrightarrow>
           handlePreviousPose isLoading poseInstructions currentPoseIndex availablePoseKeys
             = [Num ((currentPoseIndex - 1 + int (length poseInstructions))
                      mod int (length poseInstructions))]) \<and>
         (poseInstructions ! nat currentPoseIndex \<in> set availablePoseKeys \<longrightarrow>
           (let p = indexOf availablePoseKeys (poseInstructions ! nat currentPoseIndex);
                target = availablePoseKeys ! nat ((p - 1) mod int (length availablePoseKeys))
            in handlePreviousPose isLoading poseInstructions currentPoseIndex availablePoseKeys
                 = [Num (indexOf poseInstructions target)] \<and>
               0 \<le> indexOf poseInstructions target \<and>
               poseInstructions ! nat (indexOf poseInstructions target) = target))"
proof -
  let ?n = "int (length poseInstructions)"
  let ?m = "int (length availablePoseKeys)"
  let ?c = "poseInstructions ! nat currentPoseIndex"
  have cur: "js_get poseInstructions (Num currentPoseIndex) = Some ?c"
    using assms(3,4) by simp
  have guard: "\<not> (isLoading \<or> length availablePoseKeys \<le> 1)"
    using assms(1,2) by simp
  have absent: "handlePreviousPose isLoading poseInstructions currentPoseIndex availablePoseKeys
             = [Num ((currentPoseIndex - 1 + ?n) mod ?n)]"
    if "?c \<notin> set availablePoseKeys"
  proof -
    from that have nf: "indexOf (map Some availablePoseKeys) (Some ?c) = - 1"
      by (simp add: indexOf_map_Some indexOf_absent)
    have "js_rem (currentPoseIndex - 1 + ?n) ?n = Num ((currentPoseIndex - 1 + ?n) mod ?n)"
      using assms(3,4) by (intro js_rem_nonneg) linarith+
    with guard cur nf show ?thesis
      by (simp add: handlePreviousPose_def Let_def)
  qed
  have present: "handlePreviousPose isLoading poseInstructions currentPoseIndex availablePoseKeys
                 = [Num (indexOf poseInstructions
                      (availablePoseKeys ! nat ((indexOf availablePoseKeys ?c - 1) mod ?m)))] \<and>
               0 \<le> indexOf poseInstructions
                      (availablePoseKeys ! nat ((indexOf availablePoseKeys ?c - 1) mod ?m)) \<and>
               poseInstructions ! nat (indexOf poseInstructions
                      (availablePoseKeys ! nat ((indexOf availablePoseKeys ?c - 1) mod ?m)))
                 = availablePoseKeys ! nat ((indexOf availablePoseKeys ?c - 1) mod ?m)"
    if mem: "?c \<in> set availablePoseKeys"
  proof -
    let ?p = "indexOf availablePoseKeys ?c"
    let ?q = "(?p - 1) mod ?m"
    let ?t = "availablePoseKeys ! nat ?q"
    from mem have pne: "?p \<noteq> - 1" by (simp add: indexOf_absent)
    have mpos: "0 < ?m" using assms(2) by auto
    have p0: "0 \<le> ?p" using pne indexOf_ge [of availablePoseKeys ?c] by linarith
    have pm: "?p < ?m" by (rule indexOf_lt)
    have rem: "js_rem (?p - 1 + ?m) ?m = Num ?q"
    proof -
      have "js_rem (?p - 1 + ?m) ?m = Num ((?p - 1 + ?m) mod ?m)"
        using p0 mpos by (intro js_rem_nonneg) linarith+
      then show ?thesis by simp
    qed
    have q: "0 \<le> ?q \<and> ?q < ?m" using mpos by simp
    then have "nat ?q < length availablePoseKeys" by linarith
    then have tin: "?t \<in> set availablePoseKeys" by (rule nth_mem)
    with assms(5) have tcat: "?t \<in> set poseInstructions" by blast
    then have gne: "indexOf poseInstructions ?t \<noteq> - 1" by (simp add: indexOf_absent)
    then have g0: "0 \<le> indexOf poseInstructions ?t"
      using indexOf_ge [of poseInstructions ?t] by linarith
    have get: "js_get availablePoseKeys (Num ?q) = Some ?t" using q by simp
    have "handlePreviousPose isLoading poseInstructions currentPoseIndex availablePoseKeys
      = [Num (indexOf poseInstructions ?t)]"
      using guard cur pne rem get gne
      by (simp add: handlePreviousPose_def Let_def indexOf_map_Some del: js_get.simps)
    with g0 tcat show ?thesis by (simp add: indexOf_nth)
  qed
  from absent present show ?thesis by (simp add: Let_def)
qed

theorem handlePreviousPose_algorithm_witness:
  "\<not> False \<and> 1 < length [''A'', ''C''] \<and> (0::int) \<le> 2 \<and>
   (2::int) < int (length [''A'', ''B'', ''C'', ''D'']) \<and>
   set [''A'', ''C''] \<subseteq> set [''A'', ''B'', ''C'', ''D''] \<and>
   [''A'', ''B'', ''C'', ''D''] ! nat 2 \<in> set [''A'', ''C''] \<and>
   handlePreviousPose False [''A'', ''B'', ''C'', ''D''] 2 [''A'', ''C''] = [Num 0] \<and>
   [''A'', ''B'', ''C'', ''D''] ! nat 3 \<notin> set [''A'', ''C''] \<and>
   handlePreviousPose False [''A'', ''B'', ''C'', ''D''] 3 [''A'', ''C''] = [Num 2]"
proof -
  let ?cat = "[''A'', ''B'', ''C'', ''D'']"
  let ?av = "[''A'', ''C'']"
  have a: "\<not> False" by simp
  have b: "1 < length ?av" by simp
  have c2: "(0::int) \<le> 2" and c3: "(0::int) \<le> 3" by simp_all
  have d2: "(2::int) < int (length ?cat)" and d3: "(3::int) < int (length ?cat)" by simp_all
  have e: "set ?av \<subseteq> set ?cat" by simp
  have m2: "?cat ! nat 2 \<in> set ?av" by simp
  have m3: "?cat ! nat 3 \<notin> set ?av" by simp
  have t2: "?cat ! nat 2 = ''C''" and t3: "?cat ! nat 3 = ''D''" by simp_all
  have ev: "indexOf ?cat (?av ! nat ((indexOf ?av ''C'' - 1) mod int (length ?av))) = 0"
    by simp
  from handlePreviousPose_algorithm [OF a b c2 d2 e] m2
  have "handlePreviousPose False ?cat 2 ?av
      = [Num (indexOf ?cat (?av ! nat ((indexOf ?av (?cat ! nat 2) - 1) mod int (length ?av))))]"
    unfolding Let_def by blast
  then have r2: "handlePreviousPose False ?cat 2 ?av = [Num 0]"
    unfolding t2 ev .
  from handlePreviousPose_algorithm [OF a b c3 d3 e] m3
  have "handlePreviousPose False ?cat 3 ?av = [Num ((3 - 1 + int (length ?cat)) mod int (length ?cat))]"
    by blast
  then have r3: "handlePreviousPose False ?cat 3 ?av = [Num 2]" by simp
  from a b c2 d2 e m2 m3 r2 r3 show ?thesis by blast
qed

text \<open>
  The claim C2 as stated, for every available list, fails where a single pose is
  available: with catalog [A, B, C, D], available [A] and current pose B (not available)
  the handler makes no call, where the claim has it select index 0.
\<close>

theorem handlePreviousPose_single_available_counterexample:
  "indexOf (map Some [''A'']) (js_get [''A'', ''B'', ''C'', ''D''] (Num 1)) = - 1 \<and>
   handlePreviousPose False [''A'', ''B'', ''C'', ''D''] 1 [''A''] = [] \<and>
   handlePreviousPose False [''A'', ''B'', ''C'', ''D''] 1 [''A'']
     \<noteq> [Num ((1 - 1 + int (length [''A'', ''B'', ''C'', ''D'']))
              mod int (length [''A'', ''B'', ''C'', ''D'']))]"
  by (simp add: handlePreviousPose_def)

lemma handlePreviousPose_present_target:
  assumes "indexOf (map Some availablePoseKeys) (js_get poseInstructions (Num currentPoseIndex)) \<noteq> - 1"
    and "n \<in> set (handlePreviousPose isLoading poseInstructions currentPoseIndex availablePoseKeys)"
  shows "\<exists>g t. n = Num g \<and> js_get poseInstructions (Num g) = Some t \<and> t \<in> set availablePoseKeys"
proof -
  let ?m = "int (length availablePoseKeys)"
  let ?p = "indexOf (map Some availablePoseKeys) (js_get poseInstructions (Num currentPoseIndex))"
  let ?prev = "js_get availablePoseKeys (js_rem (?p - 1 + ?m) ?m)"
  let ?g = "indexOf (map Some poseInstructions) ?prev"
  from assms have run: "\<not> isLoading" "1 < length availablePoseKeys"
    by (auto simp: handlePreviousPose_def split: if_splits)
  with assms have n: "n = Num ?g" and gne: "?g \<noteq> - 1"
    by (auto simp: handlePreviousPose_def Let_def split: if_splits simp del: js_get.simps)
  from gne have "?prev \<in> set (map Some poseInstructions)"
    by (simp add: indexOf_absent del: js_get.simps)
  then obtain t where t: "?prev = Some t" by auto
  then have tav: "t \<in> set availablePoseKeys"
    by (cases "js_rem (?p - 1 + ?m) ?m") (auto split: if_splits)
  from gne t have tcat: "t \<in> set poseInstructions"
    by (simp add: indexOf_map_Some indexOf_absent del: js_get.simps)
  have g: "?g = indexOf poseInstructions t" using t by (simp add: indexOf_map_Some del: js_get.simps)
  have "0 \<le> indexOf poseInstructions t"
    using tcat indexOf_ge [of poseInstructions t] indexOf_absent [of poseInstructions t] by linarith
  moreover have "indexOf poseInstructions t < int (length poseInstructions)" by (rule indexOf_lt)
  ultimately have "js_get poseInstructions (Num (indexOf poseInstructions t)) = Some t"
    using tcat by (simp add: indexOf_nth)
  with n g tav show ?thesis by (auto simp del: js_get.simps)
qed

lemma handlePreviousPose_absent_wrap:
  assumes "\<not> isLoading"
    and "1 < length availablePoseKeys"
    and "0 \<le> currentPoseIndex"
    and "currentPoseIndex < int (length poseInstructions)"
    and "poseInstructions ! nat currentPoseIndex \<notin> set availablePoseKeys"
  shows "handlePreviousPose isLoading poseInstructions currentPoseIndex availablePoseKeys
           = [Num ((currentPoseIndex - 1 + int (length poseInstructions))
                    mod int (length poseInstructions))]"
proof -
  let ?n = "int (length poseInstructions)"
  let ?c = "poseInstructions ! nat currentPoseIndex"
  have cur: "js_get poseInstructions (Num currentPoseIndex) = Some ?c"
    using assms(3,4) by simp
  have nf: "indexOf (map Some availablePoseKeys) (Some ?c) = - 1"
    using assms(5) by (simp add: indexOf_map_Some indexOf_absent)
  have "js_rem (currentPoseIndex - 1 + ?n) ?n = Num ((currentPoseIndex - 1 + ?n) mod ?n)"
    using assms(3,4) by (intro js_rem_nonneg) linarith+
  with assms(1,2) cur nf show ?thesis
    by (simp add: handlePreviousPose_def Let_def)
qed

text \<open>
  C3, as the code has it. When the current pose is itself in the available list, every
  index that \<open>handlePreviousPose\<close> passes to \<open>onSelectPose\<close> is the catalog index
  of a pose of the available list. When the current pose, at an index inside the catalog,
  is not in the available list, the canvas is not loading and at least two poses are
  available, the handler selects \<open>(i - 1 + |catalog|) mod |catalog|\<close>, whether that
  pose is available or not.
\<close>

theorem handlePreviousPose_targets_available:
  "(indexOf (map Some availablePoseKeys) (js_get poseInstructions (Num currentPoseIndex)) \<noteq> - 1 \<longrightarrow>
      (\<forall>n \<in> set (handlePreviousPose isLoading poseInstructions currentPoseIndex availablePoseKeys).
         \<exists>g t. n = Num g \<and> js_get poseInstructions (Num g) = Some t \<and>
               t \<in> set availablePoseKeys)) \<and>
   (\<not> isLoading \<and> 1 < length availablePoseKeys \<and>
    0 \<le> currentPoseIndex \<and> currentPoseIndex < int (length poseInstructions) \<and>
    poseInstructions ! nat currentPoseIndex \<notin> set availablePoseKeys \<longrightarrow>
      handlePreviousPose isLoading poseInstructions currentPoseIndex availablePoseKeys
        = [Num ((currentPoseIndex - 1 + int (length poseInstructions))
                 mod int (length poseInstructions))])"
  using handlePreviousPose_present_target [of availablePoseKeys poseInstructions currentPoseIndex _ isLoading]
    handlePreviousPose_absent_wrap [of isLoading availablePoseKeys currentPoseIndex poseInstructions]
  by blast

theorem handlePreviousPose_targets_available_witness:
  "indexOf (map Some [''A'', ''C'']) (js_get [''A'', ''B'', ''C'', ''D''] (Num 2)) \<noteq> - 1 \<and>
   handlePreviousPose False [''A'', ''B'', ''C'', ''D''] 2 [''A'', ''C''] = [Num 0] \<and>
   (\<exists>g t. Num 0 = Num g \<and> js_get [''A'', ''B'', ''C'', ''D''] (Num g) = Some t \<and>
      t \<in> set [''A'', ''C'']) \<and>
   [''A'', ''B'', ''C'', ''D''] ! nat 3 \<notin> set [''A'', ''B''] \<and>
   handlePreviousPose False [''A'', ''B'', ''C'', ''D''] 3 [''A'', ''B''] = [Num 2]"
proof -
  let ?cat = "[''A'', ''B'', ''C'', ''D'']"
  note a = handlePreviousPose_targets_available [of "[''A'', ''C'']" ?cat 2 False]
  note b = handlePreviousPose_targets_available [of "[''A'', ''B'']" ?cat 3 False]
  have h1: "indexOf (map Some [''A'', ''C'']) (js_get ?cat (Num 2)) \<noteq> - 1" by simp
  have h2: "handlePreviousPose False ?cat 2 [''A'', ''C''] = [Num 0]"
    by (simp add: handlePreviousPose_def js_rem_def)
  from a h1 have "\<forall>n \<in> set (handlePreviousPose False ?cat 2 [''A'', ''C'']).
         \<exists>g t. n = Num g \<and> js_get ?cat (Num g) = Some t \<and> t \<in> set [''A'', ''C'']"
    by blast
  then have c1: "\<exists>g t. Num 0 = Num g \<and> js_get ?cat (Num g) = Some t \<and> t \<in> set [''A'', ''C'']"
    unfolding h2 by simp
  have g1: "\<not> False" and g2: "1 < length [''A'', ''B'']" and g3: "(0::int) \<le> 3"
    and g4: "(3::int) < int (length ?cat)" and g5: "?cat ! nat 3 \<notin> set [''A'', ''B'']"
    by simp_all
  from b g1 g2 g3 g4 g5
  have "handlePreviousPose False ?cat 3 [''A'', ''B'']
      = [Num ((3 - 1 + int (length ?cat)) mod int (length ?cat))]"
    by blast
  then have c2: "handlePreviousPose False ?cat 3 [''A'', ''B''] = [Num 2]" by simp
  from h1 h2 c1 g5 c2 show ?thesis by blast
qed

text \<open>
  The claim C3 as stated, for every current index, fails when the current pose is not
  in the available list: with catalog [A, B, C, D], available [A, B] and current pose D
  the handler selects index 2, the pose C, which is not available.
\<close>

theorem handlePreviousPose_uncached_target_counterexample:
  "handlePreviousPose False [''A'', ''B'', ''C'', ''D''] 3 [''A'', ''B''] = [Num 2] \<and>
   js_get [''A'', ''B'', ''C'', ''D''] (Num 2) = Some ''C'' \<and>
   ''C'' \<notin> set [''A'', ''B'']"
  by (simp add: handlePreviousPose_def js_rem_def)

section \<open>Facts about the scan of a response\<close>

text \<open>
  The loops of \<open>handleApiResponse\<close> find nothing exactly when the response has no
  inline-data part, and otherwise return the data URL of the first one in reading order.
\<close>

lemma scanParts_None: "scanParts ps = None \<longleftrightarrow> List.map_filter inlineData ps = []"
  by (induction ps) (auto simp: List.map_filter_simps split: option.splits)

lemma scanParts_first:
  "List.map_filter inlineData ps = b # bs \<Longrightarrow>
   scanParts ps = Some (''data:'' @ template (mimeType b) @ '';base64,'' @ template (data b))"
  by (induction ps) (auto simp: List.map_filter_simps split: option.splits)

lemma scanCandidate_None:
  "(case content c of None \<Rightarrow> None
    | Some ct \<Rightarrow> (case parts ct of None \<Rightarrow> None | Some ps \<Rightarrow> scanParts ps)) = None
   \<longleftrightarrow> candidateInlineParts c = []"
  by (simp add: candidateInlineParts_def scanParts_None split: option.splits)

lemma scanCandidate_first:
  "candidateInlineParts c = b # bs \<Longrightarrow>
   (case content c of None \<Rightarrow> None
    | Some ct \<Rightarrow> (case parts ct of None \<Rightarrow> None | Some ps \<Rightarrow> scanParts ps))
     = Some (''data:'' @ template (mimeType b) @ '';base64,'' @ template (data b))"
  by (auto simp: candidateInlineParts_def scanParts_first split: option.splits)

lemma scanCandidates_None:
  "scanCandidates cs = None \<longleftrightarrow> concat (map candidateInlineParts cs) = []"
proof (induction cs)
  case Nil
  show ?case by simp
next
  case (Cons c cs)
  show ?case
  proof (cases "candidateInlineParts c")
    case Nil
    then have "(case content c of None \<Rightarrow> None
      | Some ct \<Rightarrow> (case parts ct of None \<Rightarrow> None | Some ps \<Rightarrow> scanParts ps)) = None"
      by (simp add: scanCandidate_None)
    with Nil Cons.IH show ?thesis by simp
  next
    case (Cons b bs)
    then show ?thesis by (simp add: scanCandidate_first)
  qed
qed

lemma scanCandidates_first:
  "concat (map candidateInlineParts cs) = b # bs \<Longrightarrow>
   scanCandidates cs = Some (''data:'' @ template (mimeType b) @ '';base64,'' @ template (data b))"
proof (induction cs)
  case Nil
  then show ?case by simp
next
  case (Cons c cs)
  show ?case
  proof (cases "candidateInlineParts c")
    case Nil
    then have "(case content c of None \<Rightarrow> None
      | Some ct \<Rightarrow> (case parts ct of None \<Rightarrow> None | Some ps \<Rightarrow> scanParts ps)) = None"
      by (simp add: scanCandidate_None)
    moreover from Nil Cons.prems have "concat (map candidateInlineParts cs) = b # bs" by simp
    ultimately show ?thesis using Cons.IH by simp
  next
    case (Cons b' bs')
    with Cons.prems have "b' = b" by simp
    with Cons show ?thesis by (simp add: scanCandidate_first)
  qed
qed

lemma handleApiResponse_failure_no_image:
  assumes "handleApiResponse response = Inl e"
  shows "inlineParts response = []"
proof (cases "candidates response")
  case None
  then show ?thesis by (simp add: inlineParts_def)
next
  case (Some cs)
  show ?thesis
  proof (cases "scanCandidates cs")
    case None
    with Some show ?thesis by (simp add: inlineParts_def scanCandidates_None)
  next
    case (Some url)
    then have "cs \<noteq> []" by auto
    with \<open>candidates response = Some cs\<close> Some assms show ?thesis
      by (simp add: handleApiResponse_def)
  qed
qed

lemma handleApiResponse_no_image_fails:
  assumes "inlineParts response = []"
  shows "\<exists>msg. handleApiResponse response = Inl (Error msg)"
proof (cases "candidates response")
  case None
  then show ?thesis by (simp add: handleApiResponse_def)
next
  case (Some cs)
  with assms have "scanCandidates cs = None"
    by (simp add: inlineParts_def scanCandidates_None)
  with Some show ?thesis
    by (simp add: handleApiResponse_def Let_def)
qed

section \<open>Properties of response handling\<close>

text \<open>
  C9. For every response that contains at least one inline-data part,
  \<open>handleApiResponse\<close> returns the data URL \<open>data:<mimeType>;base64,<data>\<close> of
  the first such part, candidates taken in order and the parts of each candidate in
  order; the parts after it do not matter.
\<close>

theorem handleApiResponse_first_image:
  assumes "inlineParts response = b # bs"
  shows "handleApiResponse response
           = Inr (''data:'' @ template (mimeType b) @ '';base64,'' @ template (data b))"
proof -
  from assms obtain cs where cs: "candidates response = Some cs"
    and parts: "concat (map candidateInlineParts cs) = b # bs"
    by (auto simp: inlineParts_def split: option.splits)
  from parts have "cs \<noteq> []" by auto
  with cs scanCandidates_first [OF parts] show ?thesis
    by (simp add: handleApiResponse_def)
qed

theorem handleApiResponse_first_image_witness:
  "inlineParts
     \<lparr>candidates = Some
        [\<lparr>content = Some \<lparr>parts = Some [\<lparr>inlineData = None, partText = Some ''Here it is''\<rparr>]\<rparr>,
          finishReason = Some ''SAFETY''\<rparr>,
         \<lparr>content = Some \<lparr>parts = Some
            [\<lparr>inlineData = None, partText = Some ''hi''\<rparr>,
             \<lparr>inlineData = Some \<lparr>mimeType = Some ''image/png'', data = Some ''QUJD''\<rparr>,
              partText = None\<rparr>,
             \<lparr>inlineData = Some \<lparr>mimeType = Some ''image/jpeg'', data = Some ''WFla''\<rparr>,
              partText = None\<rparr>]\<rparr>,
          finishReason = None\<rparr>],
      responseText = Some ''Here it is''\<rparr>
     = [\<lparr>mimeType = Some ''image/png'', data = Some ''QUJD''\<rparr>,
        \<lparr>mimeType = Some ''image/jpeg'', data = Some ''WFla''\<rparr>] \<and>
   handleApiResponse
     \<lparr>candidates = Some
        [\<lparr>content = Some \<lparr>parts = Some [\<lparr>inlineData = None, partText = Some ''Here it is''\<rparr>]\<rparr>,
          finishReason = Some ''SAFETY''\<rparr>,
         \<lparr>content = Some \<lparr>parts = Some
            [\<lparr>inlineData = None, partText = Some ''hi''\<rparr>,
             \<lparr>inlineData = Some \<lparr>mimeType = Some ''image/png'', data = Some ''QUJD''\<rparr>,
              partText = None\<rparr>,
             \<lparr>inlineData = Some \<lparr>mimeType = Some ''image/jpeg'', data = Some ''WFla''\<rparr>,
              partText = None\<rparr>]\<rparr>,
          finishReason = None\<rparr>],
      responseText = Some ''Here it is''\<rparr>
     = Inr ''data:image/png;base64,QUJD''"
proof -
  let ?r = "\<lparr>candidates = Some
        [\<lparr>content = Some \<lparr>parts = Some [\<lparr>inlineData = None, partText = Some ''Here it is''\<rparr>]\<rparr>,
          finishReason = Some ''SAFETY''\<rparr>,
         \<lparr>content = Some \<lparr>parts = Some
            [\<lparr>inlineData = None, partText = Some ''hi''\<rparr>,
             \<lparr>inlineData = Some \<lparr>mimeType = Some ''image/png'', data = Some ''QUJD''\<rparr>,
              partText = None\<rparr>,
             \<lparr>inlineData = Some \<lparr>mimeType = Some ''image/jpeg'', data = Some ''WFla''\<rparr>,
              partText = None\<rparr>]\<rparr>,
          finishReason = None\<rparr>],
      responseText = Some ''Here it is''\<rparr>"
  have h: "inlineParts ?r = [\<lparr>mimeType = Some ''image/png'', data = Some ''QUJD''\<rparr>,
        \<lparr>mimeType = Some ''image/jpeg'', data = Some ''WFla''\<rparr>]"
    by (simp add: inlineParts_def candidateInlineParts_def List.map_filter_simps)
  from handleApiResponse_first_image [OF h]
  have "handleApiResponse ?r = Inr ''data:image/png;base64,QUJD''"
    by (simp add: template_def)
  with h show ?thesis by simp
qed

text \<open>
  C5. When the response has no candidates (the field is missing, or the list is empty),
  \<open>handleApiResponse\<close> fails with the error whose message says that no candidates
  were returned, possibly because of safety filters, and returns no artifact.
\<close>

theorem handleApiResponse_no_candidates:
  assumes "candidates response = None \<or> candidates response = Some []"
  shows "handleApiResponse response
           = Inl (Error ''No candidates returned from the model. This may be due to safety filters.'')
         \<and> (\<forall>url. handleApiResponse response \<noteq> Inr url)"
  using assms by (auto simp: handleApiResponse_def)

theorem handleApiResponse_no_candidates_witness:
  "handleApiResponse \<lparr>candidates = None, responseText = None\<rparr>
     = Inl (Error ''No candidates returned from the model. This may be due to safety filters.'') \<and>
   handleApiResponse \<lparr>candidates = Some [], responseText = None\<rparr>
     = Inl (Error ''No candidates returned from the model. This may be due to safety filters.'')"
  using handleApiResponse_no_candidates [of "\<lparr>candidates = None, responseText = None\<rparr>"]
    handleApiResponse_no_candidates [of "\<lparr>candidates = Some [], responseText = None\<rparr>"]
  by simp

text \<open>
  C6, as the code has it. When the response has candidates but no inline-data part, the
  finish reason of the first candidate is \<open>STOP\<close> or absent, and the text of the
  response is non-empty once white space is trimmed from both ends,
  \<open>handleApiResponse\<close> fails with the error that quotes the trimmed text. On every
  failure path, that is for every response without an inline-data part, the result is an
  error and never a data URL; and a response on which \<open>handleApiResponse\<close> fails has
  no inline-data part.
\<close>

theorem handleApiResponse_text_only:
  assumes "candidates response = Some (c # cs)"
    and "inlineParts response = []"
    and "finishReason c = None \<or> finishReason c = Some ''STOP''"
    and "responseText response = Some t"
    and "trim t \<noteq> []"
  shows "handleApiResponse response
           = Inl (Error (''The model responded with text instead of an image: ''
                          @ [CHR 0x22] @ trim t @ [CHR 0x22]))
         \<and> (\<forall>r. inlineParts r = [] \<longrightarrow>
               (\<exists>msg. handleApiResponse r = Inl (Error msg)) \<and>
               (\<forall>url. handleApiResponse r \<noteq> Inr url))
         \<and> (\<forall>r e. handleApiResponse r = Inl e \<longrightarrow> inlineParts r = [])"
proof -
  from assms(1,2) have "scanCandidates (c # cs) = None"
    using scanCandidates_None [of "c # cs"] by (simp add: inlineParts_def)
  moreover have "\<not> (truthy (finishReason c) \<and> finishReason c \<noteq> Some ''STOP'')"
    using assms(3) by (auto simp: truthy_def)
  ultimately have first: "handleApiResponse response
           = Inl (Error (''The model responded with text instead of an image: ''
                          @ [CHR 0x22] @ trim t @ [CHR 0x22]))"
    using assms(1,4,5) by (simp add: handleApiResponse_def Let_def truthy_def template_def)
  have fails: "(\<exists>msg. handleApiResponse r = Inl (Error msg)) \<and>
               (\<forall>url. handleApiResponse r \<noteq> Inr url)" if "inlineParts r = []" for r
  proof -
    from that obtain msg where "handleApiResponse r = Inl (Error msg)"
      using handleApiResponse_no_image_fails by blast
    then show ?thesis by simp
  qed
  have conv: "inlineParts r = []" if "handleApiResponse r = Inl e" for r e
    using that by (rule handleApiResponse_failure_no_image)
  from first fails conv show ?thesis by blast
qed

theorem handleApiResponse_text_only_witness:
  "inlineParts \<lparr>candidates = Some
       [\<lparr>content = Some \<lparr>parts = Some [\<lparr>inlineData = None, partText = Some '' I cannot. ''\<rparr>]\<rparr>,
         finishReason = Some ''STOP''\<rparr>],
      responseText = Some '' I cannot. ''\<rparr> = [] \<and>
   trim '' I cannot. '' = ''I cannot.'' \<and>
   handleApiResponse \<lparr>candidates = Some
       [\<lparr>content = Some \<lparr>parts = Some [\<lparr>inlineData = None, partText = Some '' I cannot. ''\<rparr>]\<rparr>,
         finishReason = Some ''STOP''\<rparr>],
      responseText = Some '' I cannot. ''\<rparr>
     = Inl (Error (''The model responded with text instead of an image: ''
                    @ [CHR 0x22] @ ''I cannot.'' @ [CHR 0x22])) \<and>
   inlineParts \<lparr>candidates = Some [\<lparr>content = None, finishReason = Some ''SAFETY''\<rparr>],
      responseText = None\<rparr> = [] \<and>
   handleApiResponse \<lparr>candidates = Some [\<lparr>content = None, finishReason = Some ''SAFETY''\<rparr>],
      responseText = None\<rparr> \<noteq> Inr ''data:undefined;base64,undefined'' \<and>
   handleApiResponse \<lparr>candidates = Some [\<lparr>content = None, finishReason = Some ''SAFETY''\<rparr>],
      responseText = None\<rparr> = Inl (Error ''Generation stopped unexpectedly. Reason: SAFETY.'')"
proof -
  let ?c = "\<lparr>content = Some \<lparr>parts = Some [\<lparr>inlineData = None, partText = Some '' I cannot. ''\<rparr>]\<rparr>,
         finishReason = Some ''STOP''\<rparr>"
  let ?r = "\<lparr>candidates = Some [?c], responseText = Some '' I cannot. ''\<rparr>"
  let ?s = "\<lparr>candidates = Some [\<lparr>content = None, finishReason = Some ''SAFETY''\<rparr>],
      responseText = None\<rparr>"
  have h1: "candidates ?r = Some (?c # [])" by simp
  have h2: "inlineParts ?r = []"
    by (simp add: inlineParts_def candidateInlineParts_def List.map_filter_simps)
  have h3: "finishReason ?c = None \<or> finishReason ?c = Some ''STOP''" by simp
  have h4: "responseText ?r = Some '' I cannot. ''" by simp
  have t: "trim '' I cannot. '' = ''I cannot.''" by (simp add: trim_def isWhiteSpace_def)
  then have h5: "trim '' I cannot. '' \<noteq> []" by simp
  note inst = handleApiResponse_text_only [OF h1 h2 h3 h4 h5]
  from inst t have first: "handleApiResponse ?r
     = Inl (Error (''The model responded with text instead of an image: ''
                    @ [CHR 0x22] @ ''I cannot.'' @ [CHR 0x22]))"
    by simp
  have s0: "inlineParts ?s = []" by (simp add: inlineParts_def candidateInlineParts_def)
  from inst have "\<forall>r. inlineParts r = [] \<longrightarrow>
               (\<exists>msg. handleApiResponse r = Inl (Error msg)) \<and>
               (\<forall>url. handleApiResponse r \<noteq> Inr url)"
    by blast
  with s0 have s1: "handleApiResponse ?s \<noteq> Inr ''data:undefined;base64,undefined''" by blast
  have s2: "handleApiResponse ?s = Inl (Error ''Generation stopped unexpectedly. Reason: SAFETY.'')"
    by (simp add: handleApiResponse_def truthy_def template_def)
  from h2 t first s0 s1 s2 show ?thesis by blast
qed

text \<open>
  The claim C6 as stated, for every non-empty text, fails on a text of white space only:
  the text is trimmed first, and for the text of a single space the error is the one for
  a missing image, which quotes nothing.
\<close>

theorem handleApiResponse_blank_text_counterexample:
  "candidates \<lparr>candidates = Some
       [\<lparr>content = Some \<lparr>parts = Some [\<lparr>inlineData = None, partText = Some '' ''\<rparr>]\<rparr>,
         finishReason = Some ''STOP''\<rparr>],
      responseText = Some '' ''\<rparr> \<noteq> None \<and>
   candidates \<lparr>candidates = Some
       [\<lparr>content = Some \<lparr>parts = Some [\<lparr>inlineData = None, partText = Some '' ''\<rparr>]\<rparr>,
         finishReason = Some ''STOP''\<rparr>],
      responseText = Some '' ''\<rparr> \<noteq> Some [] \<and>
   inlineParts \<lparr>candidates = Some
       [\<lparr>content = Some \<lparr>parts = Some [\<lparr>inlineData = None, partText = Some '' ''\<rparr>]\<rparr>,
         finishReason = Some ''STOP''\<rparr>],
      responseText = Some '' ''\<rparr> = [] \<and>
   responseText \<lparr>candidates = Some
       [\<lparr>content = Some \<lparr>parts = Some [\<lparr>inlineData = None, partText = Some '' ''\<rparr>]\<rparr>,
         finishReason = Some ''STOP''\<rparr>],
      responseText = Some '' ''\<rparr> = Some '' '' \<and>
   '' '' \<noteq> [] \<and>
   handleApiResponse \<lparr>candidates = Some
       [\<lparr>content = Some \<lparr>parts = Some [\<lparr>inlineData = None, partText = Some '' ''\<rparr>]\<rparr>,
         finishReason = Some ''STOP''\<rparr>],
      responseText = Some '' ''\<rparr>
     = Inl (Error ''No image was returned. Please try a different prompt or image.'') \<and>
   handleApiResponse \<lparr>candidates = Some
       [\<lparr>content = Some \<lparr>parts = Some [\<lparr>inlineData = None, partText = Some '' ''\<rparr>]\<rparr>,
         finishReason = Some ''STOP''\<rparr>],
      responseText = Some '' ''\<rparr>
     \<noteq> Inl (Error (''The model responded with text instead of an image: ''
                    @ [CHR 0x22] @ '' '' @ [CHR 0x22]))"
  by (simp add: handleApiResponse_def inlineParts_def candidateInlineParts_def truthy_def
      trim_def isWhiteSpace_def List.map_filter_simps)

section \<open>Properties of the try-on request\<close>

text \<open>
  A data URL as \<open>handleApiResponse\<close> builds it is read back by \<open>dataUrlToParts\<close>
  as the same MIME type and data, when the type is not empty and has no comma, semicolon
  or line terminator, and the data has no comma.
\<close>

lemma split_no_sep: "sep \<notin> set s \<Longrightarrow> split s sep = [s]"
  by (induction s) auto

lemma split_at_first_sep:
  "sep \<notin> set s \<Longrightarrow> split (s @ sep # t) sep = s # split t sep"
  by (induction s) auto

lemma lazyGroup_upto_semicolon:
  "CHR 0x3B \<notin> set g \<Longrightarrow> \<forall>c \<in> set g. \<not> isLineTerminator c \<Longrightarrow>
   lazyGroup (g @ CHR 0x3B # t) = Some g"
  by (induction g) auto

lemma dataUrlToParts_artifact:
  assumes "m \<noteq> []"
    and "CHR 0x2C \<notin> set m" and "CHR 0x3B \<notin> set m" and "\<forall>c \<in> set m. \<not> isLineTerminator c"
    and "CHR 0x2C \<notin> set d"
  shows "dataUrlToParts (''data:'' @ m @ '';base64,'' @ d) = Inr (m, d)"
proof -
  have "''data:'' @ m @ '';base64,'' @ d = (''data:'' @ m @ '';base64'') @ CHR 0x2C # d" by simp
  moreover have "CHR 0x2C \<notin> set (''data:'' @ m @ '';base64'')" using assms(2) by simp
  ultimately have arr: "split (''data:'' @ m @ '';base64,'' @ d) CHR 0x2C
      = [''data:'' @ m @ '';base64'', d]"
    using split_at_first_sep [of "CHR 0x2C" "''data:'' @ m @ '';base64''" d]
      split_no_sep [OF assms(5)] by simp
  have "lazyGroup (m @ CHR 0x3B # ''base64'') = Some m"
    using assms(3,4) by (rule lazyGroup_upto_semicolon)
  then have mm: "mimeMatch (''data:'' @ m @ '';base64'') = Some m" by simp
  show ?thesis
    unfolding dataUrlToParts_def arr Let_def using mm assms(1) by simp
qed

text \<open>
  How \<open>generateVirtualTryOnImage\<close> runs when both images can be read, and what holds
  of a request that it has sent.
\<close>

lemma generateVirtualTryOnImage_run:
  assumes "dataUrlToParts modelImageUrl = Inr (m, d)"
    and "readAsDataURL garmentImage = Inr garmentUrl"
    and "dataUrlToParts garmentUrl = Inr (gm, gd)"
  shows "generateVirtualTryOnImage readAsDataURL generateContent modelImageUrl garmentImage
      = ([\<lparr>model = model_name,
           contents = \<lparr>parts = Some
             [\<lparr>inlineData = Some \<lparr>mimeType = Some m, data = Some d\<rparr>, partText = None\<rparr>,
              \<lparr>inlineData = Some \<lparr>mimeType = Some gm, data = Some gd\<rparr>, partText = None\<rparr>,
              \<lparr>inlineData = None, partText = Some tryOnPrompt\<rparr>]\<rparr>\<rparr>],
         (case generateContent
                 \<lparr>model = model_name,
                  contents = \<lparr>parts = Some
                    [\<lparr>inlineData = Some \<lparr>mimeType = Some m, data = Some d\<rparr>, partText = None\<rparr>,
                     \<lparr>inlineData = Some \<lparr>mimeType = Some gm, data = Some gd\<rparr>, partText = None\<rparr>,
                     \<lparr>inlineData = None, partText = Some tryOnPrompt\<rparr>]\<rparr>\<rparr> of
            Inl e \<Rightarrow> Inl e
          | Inr response \<Rightarrow> handleApiResponse response))"
  using assms
  by (simp add: generateVirtualTryOnImage_def dataUrlToPart_def fileToPart_def Let_def
      split: sum.splits)

lemma generateVirtualTryOnImage_call:
  assumes "req \<in> set (fst (generateVirtualTryOnImage readAsDataURL generateContent modelImageUrl garmentImage))"
  shows "\<exists>m d garmentUrl gm gd.
        dataUrlToParts modelImageUrl = Inr (m, d) \<and>
        readAsDataURL garmentImage = Inr garmentUrl \<and>
        dataUrlToParts garmentUrl = Inr (gm, gd) \<and>
        req = \<lparr>model = model_name,
               contents = \<lparr>parts = Some
                 [\<lparr>inlineData = Some \<lparr>mimeType = Some m, data = Some d\<rparr>, partText = None\<rparr>,
                  \<lparr>inlineData = Some \<lparr>mimeType = Some gm, data = Some gd\<rparr>, partText = None\<rparr>,
                  \<lparr>inlineData = None, partText = Some tryOnPrompt\<rparr>]\<rparr>\<rparr> \<and>
        fst (generateVirtualTryOnImage readAsDataURL generateContent modelImageUrl garmentImage) = [req] \<and>
        snd (generateVirtualTryOnImage readAsDataURL generateContent modelImageUrl garmentImage)
          = (case generateContent req of
               Inl e \<Rightarrow> Inl e
             | Inr response \<Rightarrow> handleApiResponse response)"
proof -
  from assms obtain m d where md: "dataUrlToParts modelImageUrl = Inr (m, d)"
    by (cases "dataUrlToParts modelImageUrl")
       (auto simp: generateVirtualTryOnImage_def dataUrlToPart_def)
  from assms md obtain u where u: "readAsDataURL garmentImage = Inr u"
    by (cases "readAsDataURL garmentImage")
       (auto simp: generateVirtualTryOnImage_def dataUrlToPart_def fileToPart_def)
  from assms md u obtain gm gd where g: "dataUrlToParts u = Inr (gm, gd)"
    by (cases "dataUrlToParts u")
       (auto simp: generateVirtualTryOnImage_def dataUrlToPart_def fileToPart_def)
  note run = generateVirtualTryOnImage_run
    [of modelImageUrl m d readAsDataURL garmentImage u gm gd generateContent, OF md u g]
  from assms have "req = \<lparr>model = model_name,
               contents = \<lparr>parts = Some
                 [\<lparr>inlineData = Some \<lparr>mimeType = Some m, data = Some d\<rparr>, partText = None\<rparr>,
                  \<lparr>inlineData = Some \<lparr>mimeType = Some gm, data = Some gd\<rparr>, partText = None\<rparr>,
                  \<lparr>inlineData = None, partText = Some tryOnPrompt\<rparr>]\<rparr>\<rparr>"
    unfolding run by simp
  with md u g run show ?thesis by simp
qed

text \<open>
  C4. \<open>generateVirtualTryOnImage\<close> sends at most one request to the generation API.
  Every request it sends has as its parts, in this order, the inline data read from
  \<open>modelImageUrl\<close> (the artifact it was given), the inline data read from the data
  URL of the garment file, and the instruction text, and the result is what
  \<open>handleApiResponse\<close> makes of the API's answer to that request (or the API's
  rejection). Whenever both images can be read, it sends exactly that request. For an
  artifact \<open>data:<type>;base64,<data>\<close> and a garment file read as such a URL, the
  parts carry exactly these types and data. So no try-on request goes out without the
  given artifact and the garment image as input parts.
\<close>

theorem generateVirtualTryOnImage_sends_model_image:
  "length (fst (generateVirtualTryOnImage readAsDataURL generateContent modelImageUrl garmentImage)) \<le> 1 \<and>
   (\<forall>req \<in> set (fst (generateVirtualTryOnImage readAsDataURL generateContent modelImageUrl garmentImage)).
      \<exists>m d garmentUrl gm gd.
        dataUrlToParts modelImageUrl = Inr (m, d) \<and>
        readAsDataURL garmentImage = Inr garmentUrl \<and>
        dataUrlToParts garmentUrl = Inr (gm, gd) \<and>
        req = \<lparr>model = model_name,
               contents = \<lparr>parts = Some
                 [\<lparr>inlineData = Some \<lparr>mimeType = Some m, data = Some d\<rparr>, partText = None\<rparr>,
                  \<lparr>inlineData = Some \<lparr>mimeType = Some gm, data = Some gd\<rparr>, partText = None\<rparr>,
                  \<lparr>inlineData = None, partText = Some tryOnPrompt\<rparr>]\<rparr>\<rparr> \<and>
        snd (generateVirtualTryOnImage readAsDataURL generateContent modelImageUrl garmentImage)
          = (case generateContent req of
               Inl e \<Rightarrow> Inl e
             | Inr response \<Rightarrow> handleApiResponse response)) \<and>
   (\<forall>m d garmentUrl gm gd.
      dataUrlToParts modelImageUrl = Inr (m, d) \<and>
      readAsDataURL garmentImage = Inr garmentUrl \<and>
      dataUrlToParts garmentUrl = Inr (gm, gd) \<longrightarrow>
      generateVirtualTryOnImage readAsDataURL generateContent modelImageUrl garmentImage
        = ([\<lparr>model = model_name,
             contents = \<lparr>parts = Some
               [\<lparr>inlineData = Some \<lparr>mimeType = Some m, data = Some d\<rparr>, partText = None\<rparr>,
                \<lparr>inlineData = Some \<lparr>mimeType = Some gm, data = Some gd\<rparr>, partText = None\<rparr>,
                \<lparr>inlineData = None, partText = Some tryOnPrompt\<rparr>]\<rparr>\<rparr>],
           (case generateContent
                   \<lparr>model = model_name,
                    contents = \<lparr>parts = Some
                      [\<lparr>inlineData = Some \<lparr>mimeType = Some m, data = Some d\<rparr>, partText = None\<rparr>,
                       \<lparr>inlineData = Some \<lparr>mimeType = Some gm, data = Some gd\<rparr>, partText = None\<rparr>,
                       \<lparr>inlineData = None, partText = Some tryOnPrompt\<rparr>]\<rparr>\<rparr> of
              Inl e \<Rightarrow> Inl e
            | Inr response \<Rightarrow> handleApiResponse response))) \<and>
   (\<forall>m d gm gd.
      modelImageUrl = ''data:'' @ m @ '';base64,'' @ d \<and>
      readAsDataURL garmentImage = Inr (''data:'' @ gm @ '';base64,'' @ gd) \<and>
      m \<noteq> [] \<and> CHR 0x2C \<notin> set m \<and> CHR 0x3B \<notin> set m \<and>
      (\<forall>c \<in> set m. \<not> isLineTerminator c) \<and> CHR 0x2C \<notin> set d \<and>
      gm \<noteq> [] \<and> CHR 0x2C \<notin> set gm \<and> CHR 0x3B \<notin> set gm \<and>
      (\<forall>c \<in> set gm. \<not> isLineTerminator c) \<and> CHR 0x2C \<notin> set gd \<longrightarrow>
      fst (generateVirtualTryOnImage readAsDataURL generateContent modelImageUrl garmentImage)
        = [\<lparr>model = model_name,
            contents = \<lparr>parts = Some
              [\<lparr>inlineData = Some \<lparr>mimeType = Some m, data = Some d\<rparr>, partText = None\<rparr>,
               \<lparr>inlineData = Some \<lparr>mimeType = Some gm, data = Some gd\<rparr>, partText = None\<rparr>,
               \<lparr>inlineData = None, partText = Some tryOnPrompt\<rparr>]\<rparr>\<rparr>])"
proof -
  let ?G = "generateVirtualTryOnImage readAsDataURL generateContent modelImageUrl garmentImage"
  have one: "length (fst ?G) \<le> 1"
    by (simp add: generateVirtualTryOnImage_def Let_def split: sum.splits)
  have sent: "\<exists>m d garmentUrl gm gd.
        dataUrlToParts modelImageUrl = Inr (m, d) \<and>
        readAsDataURL garmentImage = Inr garmentUrl \<and>
        dataUrlToParts garmentUrl = Inr (gm, gd) \<and>
        req = \<lparr>model = model_name,
               contents = \<lparr>parts = Some
                 [\<lparr>inlineData = Some \<lparr>mimeType = Some m, data = Some d\<rparr>, partText = None\<rparr>,
                  \<lparr>inlineData = Some \<lparr>mimeType = Some gm, data = Some gd\<rparr>, partText = None\<rparr>,
                  \<lparr>inlineData = None, partText = Some tryOnPrompt\<rparr>]\<rparr>\<rparr> \<and>
        snd ?G = (case generateContent req of
               Inl e \<Rightarrow> Inl e
             | Inr response \<Rightarrow> handleApiResponse response)"
    if "req \<in> set (fst ?G)" for req
    using generateVirtualTryOnImage_call [OF that] by blast
  have run: "?G = ([\<lparr>model = model_name,
             contents = \<lparr>parts = Some
               [\<lparr>inlineData = Some \<lparr>mimeType = Some m, data = Some d\<rparr>, partText = None\<rparr>,
                \<lparr>inlineData = Some \<lparr>mimeType = Some gm, data = Some gd\<rparr>, partText = None\<rparr>,
                \<lparr>inlineData = None, partText = Some tryOnPrompt\<rparr>]\<rparr>\<rparr>],
           (case generateContent
                   \<lparr>model = model_name,
                    contents = \<lparr>parts = Some
                      [\<lparr>inlineData = Some \<lparr>mimeType = Some m, data = Some d\<rparr>, partText = None\<rparr>,
                       \<lparr>inlineData = Some \<lparr>mimeType = Some gm, data = Some gd\<rparr>, partText = None\<rparr>,
                       \<lparr>inlineData = None, partText = Some tryOnPrompt\<rparr>]\<rparr>\<rparr> of
              Inl e \<Rightarrow> Inl e
            | Inr response \<Rightarrow> handleApiResponse response))"
    if "dataUrlToParts modelImageUrl = Inr (m, d)"
      and "readAsDataURL garmentImage = Inr garmentUrl"
      and "dataUrlToParts garmentUrl = Inr (gm, gd)" for m d garmentUrl gm gd
    using that by (rule generateVirtualTryOnImage_run)
  have artifact: "fst ?G = [\<lparr>model = model_name,
            contents = \<lparr>parts = Some
              [\<lparr>inlineData = Some \<lparr>mimeType = Some m, data = Some d\<rparr>, partText = None\<rparr>,
               \<lparr>inlineData = Some \<lparr>mimeType = Some gm, data = Some gd\<rparr>, partText = None\<rparr>,
               \<lparr>inlineData = None, partText = Some tryOnPrompt\<rparr>]\<rparr>\<rparr>]"
    if url: "modelImageUrl = ''data:'' @ m @ '';base64,'' @ d"
      and rd: "readAsDataURL garmentImage = Inr (''data:'' @ gm @ '';base64,'' @ gd)"
      and wf: "m \<noteq> []" "CHR 0x2C \<notin> set m" "CHR 0x3B \<notin> set m"
        "\<forall>c \<in> set m. \<not> isLineTerminator c" "CHR 0x2C \<notin> set d"
      and gwf: "gm \<noteq> []" "CHR 0x2C \<notin> set gm" "CHR 0x3B \<notin> set gm"
        "\<forall>c \<in> set gm. \<not> isLineTerminator c" "CHR 0x2C \<notin> set gd"
    for m d gm gd
  proof -
    have a: "dataUrlToParts modelImageUrl = Inr (m, d)"
      unfolding url using wf by (rule dataUrlToParts_artifact)
    have b: "dataUrlToParts (''data:'' @ gm @ '';base64,'' @ gd) = Inr (gm, gd)"
      using gwf by (rule dataUrlToParts_artifact)
    from run [OF a rd b] show ?thesis by simp
  qed
  from one sent run artifact show ?thesis by blast
qed

theorem generateVirtualTryOnImage_sends_model_image_witness:
  "dataUrlToParts ''data:image/png;base64,QUJD'' = Inr (''image/png'', ''QUJD'') \<and>
   dataUrlToParts ''data:image/jpeg;base64,R0FS'' = Inr (''image/jpeg'', ''R0FS'') \<and>
   generateVirtualTryOnImage
       (\<lambda>f. Inr (''data:'' @ file_type f @ '';base64,'' @ file_bytes f))
       (\<lambda>req. Inr \<lparr>candidates = Some [\<lparr>content = Some (contents req), finishReason = None\<rparr>],
                    responseText = None\<rparr>)
       ''data:image/png;base64,QUJD''
       \<lparr>file_name = ''shirt.jpg'', file_type = ''image/jpeg'', file_bytes = ''R0FS''\<rparr>
     = ([\<lparr>model = model_name,
          contents = \<lparr>parts = Some
            [\<lparr>inlineData = Some \<lparr>mimeType = Some ''image/png'', data = Some ''QUJD''\<rparr>,
              partText = None\<rparr>,
             \<lparr>inlineData = Some \<lparr>mimeType = Some ''image/jpeg'', data = Some ''R0FS''\<rparr>,
              partText = None\<rparr>,
             \<lparr>inlineData = None, partText = Some tryOnPrompt\<rparr>]\<rparr>\<rparr>],
        Inr ''data:image/png;base64,QUJD'')"
proof -
  let ?rd = "\<lambda>f. Inr (''data:'' @ file_type f @ '';base64,'' @ file_bytes f) :: error + string"
  let ?gen = "\<lambda>req. Inr \<lparr>candidates = Some [\<lparr>content = Some (contents req), finishReason = None\<rparr>],
                    responseText = None\<rparr> :: error + response"
  let ?f = "\<lparr>file_name = ''shirt.jpg'', file_type = ''image/jpeg'', file_bytes = ''R0FS''\<rparr>"
  let ?url = "''data:image/png;base64,QUJD''"
  let ?req = "\<lparr>model = model_name,
          contents = \<lparr>parts = Some
            [\<lparr>inlineData = Some \<lparr>mimeType = Some ''image/png'', data = Some ''QUJD''\<rparr>,
              partText = None\<rparr>,
             \<lparr>inlineData = Some \<lparr>mimeType = Some ''image/jpeg'', data = Some ''R0FS''\<rparr>,
              partText = None\<rparr>,
             \<lparr>inlineData = None, partText = Some tryOnPrompt\<rparr>]\<rparr>\<rparr>"
  have u: "dataUrlToParts ?url = Inr (''image/png'', ''QUJD'')"
    by (simp add: dataUrlToParts_def isLineTerminator_def)
  have r: "?rd ?f = Inr ''data:image/jpeg;base64,R0FS''" by simp
  have g: "dataUrlToParts ''data:image/jpeg;base64,R0FS'' = Inr (''image/jpeg'', ''R0FS'')"
    by (simp add: dataUrlToParts_def isLineTerminator_def)
  have "\<forall>m d garmentUrl gm gd.
      dataUrlToParts ?url = Inr (m, d) \<and>
      ?rd ?f = Inr garmentUrl \<and>
      dataUrlToParts garmentUrl = Inr (gm, gd) \<longrightarrow>
      generateVirtualTryOnImage ?rd ?gen ?url ?f
        = ([\<lparr>model = model_name,
             contents = \<lparr>parts = Some
               [\<lparr>inlineData = Some \<lparr>mimeType = Some m, data = Some d\<rparr>, partText = None\<rparr>,
                \<lparr>inlineData = Some \<lparr>mimeType = Some gm, data = Some gd\<rparr>, partText = None\<rparr>,
                \<lparr>inlineData = None, partText = Some tryOnPrompt\<rparr>]\<rparr>\<rparr>],
           (case ?gen
                   \<lparr>model = model_name,
                    contents = \<lparr>parts = Some
                      [\<lparr>inlineData = Some \<lparr>mimeType = Some m, data = Some d\<rparr>, partText = None\<rparr>,
                       \<lparr>inlineData = Some \<lparr>mimeType = Some gm, data = Some gd\<rparr>, partText = None\<rparr>,
                       \<lparr>inlineData = None, partText = Some tryOnPrompt\<rparr>]\<rparr>\<rparr> of
              Inl e \<Rightarrow> Inl e
            | Inr response \<Rightarrow> handleApiResponse response))"
    using generateVirtualTryOnImage_sends_model_image [of ?rd ?gen ?url ?f] by blast
  with u r g have "generateVirtualTryOnImage ?rd ?gen ?url ?f
      = ([?req], (case ?gen ?req of Inl e \<Rightarrow> Inl e | Inr response \<Rightarrow> handleApiResponse response))"
    by blast
  moreover have "(case ?gen ?req of Inl e \<Rightarrow> Inl e | Inr response \<Rightarrow> handleApiResponse response)
      = Inr ''data:image/png;base64,QUJD''"
    by (simp add: handleApiResponse_def template_def)
  ultimately have "generateVirtualTryOnImage ?rd ?gen ?url ?f = ([?req], Inr ''data:image/png;base64,QUJD'')"
    by simp
  with u g show ?thesis by blast
qed

section \<open>Properties of the wardrobe panel\<close>

text \<open>
  C7. When the first selected file has a MIME type that does not start with
  \<open>image/\<close>, \<open>handleFileChange\<close> sets the error message and returns without
  calling \<open>onGarmentSelect\<close>. For every input, each file passed to
  \<open>onGarmentSelect\<close> has a MIME type starting with \<open>image/\<close>.
\<close>

theorem handleFileChange_rejects_non_image:
  assumes "files = Some (file # rest)"
    and "\<not> startsWith (file_type file) ''image/''"
  shows "handleFileChange onGarmentSelect now createObjectURL err files
           = \<lparr>error = Some ''Please select an image file.'', selected = [], thrown = None\<rparr>
         \<and> (\<forall>sel \<in> set (selected (handleFileChange onGarmentSelect now createObjectURL err files')).
               startsWith (file_type (fst sel)) ''image/'')"
  using assms by (auto simp: handleFileChange_def Let_def split: option.splits if_splits)

theorem handleFileChange_rejects_non_image_witness:
  "\<not> startsWith (file_type \<lparr>file_name = ''notes.txt'', file_type = ''text/plain'', file_bytes = ''hi''\<rparr>)
       ''image/'' \<and>
   handleFileChange (\<lambda>f i. None) 1730 (\<lambda>f. ''blob:1'') None
       (Some [\<lparr>file_name = ''notes.txt'', file_type = ''text/plain'', file_bytes = ''hi''\<rparr>])
     = \<lparr>error = Some ''Please select an image file.'', selected = [], thrown = None\<rparr> \<and>
   selected (handleFileChange (\<lambda>f i. None) 1730 (\<lambda>f. ''blob:1'') None
       (Some [\<lparr>file_name = ''a.png'', file_type = ''image/png'', file_bytes = ''hi''\<rparr>]))
     = [(\<lparr>file_name = ''a.png'', file_type = ''image/png'', file_bytes = ''hi''\<rparr>,
         \<lparr>item_id = ''custom-1730'', item_name = ''a.png'', item_url = ''blob:1''\<rparr>)] \<and>
   startsWith (file_type \<lparr>file_name = ''a.png'', file_type = ''image/png'', file_bytes = ''hi''\<rparr>)
       ''image/''"
proof -
  let ?txt = "\<lparr>file_name = ''notes.txt'', file_type = ''text/plain'', file_bytes = ''hi''\<rparr>"
  let ?png = "\<lparr>file_name = ''a.png'', file_type = ''image/png'', file_bytes = ''hi''\<rparr>"
  let ?cb = "\<lambda>(f::js_file) (i::wardrobeItem). None :: error option"
  let ?url = "\<lambda>f::js_file. ''blob:1''"
  have h1: "Some [?txt] = Some (?txt # [])" by simp
  have h2: "\<not> startsWith (file_type ?txt) ''image/''" by (simp add: startsWith_def)
  have sel: "selected (handleFileChange ?cb 1730 ?url None (Some [?png]))
     = [(?png, \<lparr>item_id = ''custom-1730'', item_name = ''a.png'', item_url = ''blob:1''\<rparr>)]"
    by (simp add: handleFileChange_def startsWith_def Let_def decimal.simps)
  note t = handleFileChange_rejects_non_image [OF h1 h2, of ?cb 1730 ?url None "Some [?png]"]
  from t have r: "handleFileChange ?cb 1730 ?url None (Some [?txt])
     = \<lparr>error = Some ''Please select an image file.'', selected = [], thrown = None\<rparr>"
    by blast
  from t have "\<forall>sel \<in> set (selected (handleFileChange ?cb 1730 ?url None (Some [?png]))).
               startsWith (file_type (fst sel)) ''image/''"
    by blast
  then have img: "startsWith (file_type ?png) ''image/''" unfolding sel by simp
  from h2 r sel img show ?thesis by blast
qed

text \<open>
  C10. While \<open>isLoading\<close> is true, or when the id of the clicked item is in
  \<open>activeGarmentIds\<close>, \<open>handleGarmentClick\<close> returns at once: it does not call
  \<open>onGarmentSelect\<close>, and it leaves the error state as it was.
\<close>

theorem handleGarmentClick_noop_when_active:
  assumes "isLoading \<or> item_id item \<in> set activeGarmentIds"
  shows "handleGarmentClick urlToFile onGarmentSelect isLoading activeGarmentIds err item
           = \<lparr>error = err, selected = [], thrown = None\<rparr>"
  using assms by (auto simp: handleGarmentClick_def)

theorem handleGarmentClick_noop_when_active_witness:
  "item_id \<lparr>item_id = ''g1'', item_name = ''Shirt'', item_url = ''/s.png''\<rparr> \<in> set [''g0'', ''g1''] \<and>
   handleGarmentClick
       (\<lambda>u n. Inr \<lparr>file_name = n, file_type = ''image/png'', file_bytes = u\<rparr>) (\<lambda>f i. None)
       False [''g0'', ''g1''] (Some ''old'')
       \<lparr>item_id = ''g1'', item_name = ''Shirt'', item_url = ''/s.png''\<rparr>
     = \<lparr>error = Some ''old'', selected = [], thrown = None\<rparr> \<and>
   handleGarmentClick
       (\<lambda>u n. Inr \<lparr>file_name = n, file_type = ''image/png'', file_bytes = u\<rparr>) (\<lambda>f i. None)
       True [] None
       \<lparr>item_id = ''g1'', item_name = ''Shirt'', item_url = ''/s.png''\<rparr>
     = \<lparr>error = None, selected = [], thrown = None\<rparr>"
proof -
  let ?item = "\<lparr>item_id = ''g1'', item_name = ''Shirt'', item_url = ''/s.png''\<rparr>"
  have m: "item_id ?item \<in> set [''g0'', ''g1'']" by simp
  then have h1: "False \<or> item_id ?item \<in> set [''g0'', ''g1'']" by simp
  have h2: "True \<or> item_id ?item \<in> set []" by simp
  from m handleGarmentClick_noop_when_active [OF h1] handleGarmentClick_noop_when_active [OF h2]
  show ?thesis by blast
qed

end
